theory Spec2Isabelle
  imports Main
begin

section \<open>Python values\<close>

text \<open>
  A Python \<open>str\<close> is a sequence of Unicode code points. Text that only ever holds
  Latin-1 characters (the request path, header names and values, the bytes written to
  the socket) is a \<open>string\<close>, one \<open>char\<close> per byte.
\<close>

type_synonym pystr = "nat list"

definition py :: "string \<Rightarrow> pystr" where
  "py s = map of_char s"

text \<open>
  The values \<open>json.load\<close> can return, and \<open>None\<close> (which is also what it returns
  for \<open>null\<close>). A \<open>dict\<close> lists its items in their order, each key once. A \<open>float\<close>
  is observed by this program in two ways only: its truth value, and the text
  \<open>json.dumps\<close> writes for it (\<open>float.__repr__\<close> for a finite float, and \<open>NaN\<close>,
  \<open>Infinity\<close> or \<open>-Infinity\<close> otherwise). \<open>PyFloat\<close> carries both.
\<close>

datatype pyval =
    PyNone
  | PyBool bool
  | PyInt int
  | PyFloat bool string
  | PyStr pystr
  | PyList "pyval list"
  | PyDict "(pystr \<times> pyval) list"

text \<open>The truth value Python gives a value in \<open>if v:\<close> and \<open>if not v:\<close>.\<close>

fun truthy :: "pyval \<Rightarrow> bool" where
  "truthy PyNone = False"
| "truthy (PyBool b) = b"
| "truthy (PyInt n) = (n \<noteq> 0)"
| "truthy (PyFloat nonzero text) = nonzero"
| "truthy (PyStr s) = (s \<noteq> [])"
| "truthy (PyList xs) = (xs \<noteq> [])"
| "truthy (PyDict kvs) = (kvs \<noteq> [])"

datatype exception = OSError | ValueError | AttributeError | RuntimeError | OverflowError

subsection \<open>json.dumps\<close>

text \<open>
  \<open>json.dumps\<close> with its default arguments (\<open>ensure_ascii=True\<close>, separators
  \<open>', '\<close> and \<open>': '\<close>). Its result holds ASCII characters only, so it is a
  \<open>string\<close>, and \<open>.encode('utf-8')\<close> leaves these bytes as they are.
\<close>

definition hex_digit :: "nat \<Rightarrow> char" where
  "hex_digit d = ''0123456789abcdef'' ! (d mod 16)"

text \<open>\<open>'{0:04x}'.format(n)\<close>, for \<open>n < 0x10000\<close>.\<close>

definition hex4 :: "nat \<Rightarrow> string" where
  "hex4 n = [hex_digit (n div 4096), hex_digit (n div 256), hex_digit (n div 16), hex_digit n]"

text \<open>
  The replacement \<open>py_encode_basestring_ascii\<close> makes for one code point: the short
  escapes of \<open>ESCAPE_DCT\<close>, the character itself from space to tilde, and a
  \<open>\u\<close> escape (a surrogate pair above the basic plane) for everything else.
\<close>

definition escape_char :: "nat \<Rightarrow> string" where
  "escape_char n =
     (if n = 0x5C then [CHR 0x5C, CHR 0x5C]
      else if n = 0x22 then [CHR 0x5C, CHR 0x22]
      else if n = 0x08 then [CHR 0x5C, CHR ''b'']
      else if n = 0x0C then [CHR 0x5C, CHR ''f'']
      else if n = 0x0A then [CHR 0x5C, CHR ''n'']
      else if n = 0x0D then [CHR 0x5C, CHR ''r'']
      else if n = 0x09 then [CHR 0x5C, CHR ''t'']
      else if 0x20 \<le> n \<and> n \<le> 0x7E then [char_of n]
      else if n < 0x10000 then [CHR 0x5C, CHR ''u''] @ hex4 n
      else (let m = n - 0x10000;
                s1 = 0xD800 + (m div 1024) mod 1024;
                s2 = 0xDC00 + m mod 1024
            in [CHR 0x5C, CHR ''u''] @ hex4 s1 @ [CHR 0x5C, CHR ''u''] @ hex4 s2))"

definition encode_basestring_ascii :: "pystr \<Rightarrow> string" where
  "encode_basestring_ascii s = [CHR 0x22] @ concat (map escape_char s) @ [CHR 0x22]"

text \<open>\<open>str(n)\<close> for an \<open>int\<close>: its decimal digits, after a minus sign if it is negative.\<close>

definition decimal_digit :: "nat \<Rightarrow> char" where
  "decimal_digit d = ''0123456789'' ! (d mod 10)"

function str_nat :: "nat \<Rightarrow> string" where
  "str_nat n = (if n < 10 then [decimal_digit n] else str_nat (n div 10) @ [decimal_digit (n mod 10)])"
  by pat_completeness auto
termination
  by (relation "measure id") auto

declare str_nat.simps [simp del]

definition str_int :: "int \<Rightarrow> string" where
  "str_int i = (if i < 0 then CHR ''-'' # str_nat (nat (- i)) else str_nat (nat i))"

text \<open>\<open>', '.join(xs)\<close>.\<close>

fun join :: "string \<Rightarrow> string list \<Rightarrow> string" where
  "join sep [] = []"
| "join sep [x] = x"
| "join sep (x # y # ys) = x @ sep @ join sep (y # ys)"

fun json_dumps :: "pyval \<Rightarrow> string" where
  "json_dumps PyNone = ''null''"
| "json_dumps (PyBool b) = (if b then ''true'' else ''false'')"
| "json_dumps (PyInt n) = str_int n"
| "json_dumps (PyFloat nonzero text) = text"
| "json_dumps (PyStr s) = encode_basestring_ascii s"
| "json_dumps (PyList xs) = ''['' @ join '', '' (map json_dumps xs) @ '']''"
| "json_dumps (PyDict kvs) =
     ''{'' @ join '', '' (map (\<lambda>kv. encode_basestring_ascii (fst kv) @ '': '' @ json_dumps (snd kv)) kvs) @ ''}''"

section \<open>The HTTP library, as this program uses it\<close>

text \<open>
  \<open>http.server\<close> of Python 3.11. What a handler has sent, line by line: the library
  collects the status line and the header lines in \<open>_headers_buffer\<close> and writes them
  to \<open>wfile\<close>, followed by the blank line, when the headers end; the body follows.
  The class serves with \<open>protocol_version = 'HTTP/1.0'\<close>, so a connection carries one
  request.
\<close>

datatype wire =
    StatusLine nat string
  | HeaderLine string string
  | BlankLine
  | Body string

text \<open>
  The attributes of a handler. \<open>command\<close> is \<open>None\<close> until \<open>parse_request\<close> has
  stored one. \<open>repr\<close> is Python's \<open>repr\<close> of a \<open>str\<close> and \<open>error_message_format\<close> the
  page the library formats for a status and its message, as the bytes it sends.
\<close>

record handler =
  encryption_key :: pyval
  command :: "string option"
  path :: string
  request_version :: string
  version_string :: string
  date_time_string :: string
  repr :: "string \<Rightarrow> string"
  error_message_format :: "nat \<Rightarrow> string \<Rightarrow> string"
  headers_buffer :: "wire list"
  wfile :: "wire list"

text \<open>The entries of \<open>BaseHTTPRequestHandler.responses\<close> that are looked up.\<close>

definition responses :: "nat \<Rightarrow> string option" where
  "responses code =
     (if code = 200 then Some ''OK''
      else if code = 404 then Some ''Not Found''
      else if code = 414 then Some ''Request-URI Too Long''
      else None)"

text \<open>
  \<open>send_response_only\<close>, \<open>send_header\<close> and \<open>end_headers\<close> of the library do nothing
  for a request of version \<open>HTTP/0.9\<close>.
\<close>

definition send_header :: "string \<Rightarrow> string \<Rightarrow> handler \<Rightarrow> handler" where
  "send_header keyword v h =
     (if request_version h \<noteq> ''HTTP/0.9''
      then h\<lparr>headers_buffer := headers_buffer h @ [HeaderLine keyword v]\<rparr>
      else h)"

definition send_response_only :: "nat \<Rightarrow> string option \<Rightarrow> handler \<Rightarrow> handler" where
  "send_response_only code message h =
     (if request_version h \<noteq> ''HTTP/0.9'' then
        (let msg = (case message of
                      Some m \<Rightarrow> m
                    | None \<Rightarrow> (case responses code of Some m \<Rightarrow> m | None \<Rightarrow> []))
         in h\<lparr>headers_buffer := headers_buffer h @ [StatusLine code msg]\<rparr>)
      else h)"

definition send_response :: "nat \<Rightarrow> string option \<Rightarrow> handler \<Rightarrow> handler" where
  "send_response code message h =
     (let h1 = send_response_only code message h;
          h2 = send_header ''Server'' (version_string h1) h1
      in send_header ''Date'' (date_time_string h2) h2)"

text \<open>\<open>BaseHTTPRequestHandler.end_headers\<close>: the blank line, then \<open>flush_headers\<close>.\<close>

definition super_end_headers :: "handler \<Rightarrow> handler" where
  "super_end_headers h =
     (if request_version h \<noteq> ''HTTP/0.9''
      then h\<lparr>wfile := wfile h @ headers_buffer h @ [BlankLine], headers_buffer := []\<rparr>
      else h)"

definition wfile_write :: "string \<Rightarrow> handler \<Rightarrow> handler" where
  "wfile_write b h = h\<lparr>wfile := wfile h @ [Body b]\<rparr>"

subsection \<open>Reading the request line\<close>

text \<open>
  \<open>str.isspace\<close> on the characters of Latin-1, \<open>requestline.split()\<close>,
  \<open>requestline.rstrip('\r\n')\<close> and \<open>s.split(sep)\<close>.
\<close>

definition isspace :: "char \<Rightarrow> bool" where
  "isspace c =
     ((of_char c :: nat) \<in> {0x09, 0x0A, 0x0B, 0x0C, 0x0D, 0x1C, 0x1D, 0x1E, 0x1F, 0x20, 0x85, 0xA0})"

function str_split :: "string \<Rightarrow> string list" where
  "str_split s =
     (case dropWhile isspace s of
        [] \<Rightarrow> []
      | c # cs \<Rightarrow>
          takeWhile (\<lambda>x. \<not> isspace x) (c # cs)
            # str_split (dropWhile (\<lambda>x. \<not> isspace x) cs))"
  by pat_completeness auto
termination
proof (relation "measure length")
  fix s :: string and c cs
  assume "dropWhile isspace s = c # cs"
  then have "length (c # cs) \<le> length s"
    by (metis length_dropWhile_le)
  moreover have "length (dropWhile (\<lambda>x. \<not> isspace x) cs) \<le> length cs"
    by (rule length_dropWhile_le)
  ultimately show "(dropWhile (\<lambda>x. \<not> isspace x) cs, s) \<in> measure length"
    by simp
qed simp

declare str_split.simps [simp del]

definition rstrip_crlf :: "string \<Rightarrow> string" where
  "rstrip_crlf s = rev (dropWhile (\<lambda>c. c = CHR 0x0D \<or> c = CHR 0x0A) (rev s))"

fun split_on :: "char \<Rightarrow> string \<Rightarrow> string list" where
  "split_on sep [] = [[]]"
| "split_on sep (x # xs) =
     (if x = sep then [] # split_on sep xs
      else (case split_on sep xs of
              [] \<Rightarrow> [[x]]
            | part # parts \<Rightarrow> (x # part) # parts))"

text \<open>
  The version word of a request line, as \<open>parse_request\<close> reads it: \<open>HTTP/\<close>, then two
  numbers of at most ten decimal digits with one dot between them. (A component passes
  \<open>isdigit\<close> and \<open>int\<close> together exactly when it is a non-empty word of the digits 0 to
  9.) \<open>None\<close> is the \<open>ValueError\<close> the library raises and catches.
\<close>

definition is_decimal :: "string \<Rightarrow> bool" where
  "is_decimal s = (s \<noteq> [] \<and> list_all (\<lambda>c. (0x30 :: nat) \<le> of_char c \<and> (of_char c :: nat) \<le> 0x39) s)"

definition int_of_decimal :: "string \<Rightarrow> nat" where
  "int_of_decimal s = foldl (\<lambda>n c. 10 * n + (of_char c - 0x30)) 0 s"

definition parse_version :: "string \<Rightarrow> (nat \<times> nat) option" where
  "parse_version version =
     (if take 5 version \<noteq> ''HTTP/'' then None
      else (let base_version_number = drop 5 version;
                version_number = split_on CHR ''.'' base_version_number
            in if length version_number \<noteq> 2 then None
               else if \<not> list_all is_decimal version_number then None
               else if \<not> list_all (\<lambda>component. length component \<le> 10) version_number then None
               else Some (int_of_decimal (version_number ! 0), int_of_decimal (version_number ! 1))))"

section \<open>cors\_server.py\<close>

subsection \<open>The handler's methods\<close>

definition end_headers :: "handler \<Rightarrow> handler" where
  "end_headers h =
     (let h1 = send_header ''Access-Control-Allow-Origin'' ''*'' h;
          h2 = send_header ''Access-Control-Allow-Methods'' ''GET, POST, OPTIONS'' h1;
          h3 = send_header ''Access-Control-Allow-Headers'' ''Origin, Content-Type, Accept, Range'' h2;
          h4 = send_header ''Cross-Origin-Opener-Policy'' ''same-origin'' h3;
          h5 = send_header ''Cross-Origin-Embedder-Policy'' ''require-corp'' h4
      in super_end_headers h5)"

definition do_OPTIONS :: "handler \<Rightarrow> handler" where
  "do_OPTIONS h = end_headers (send_response 200 (Some ''ok'') h)"

text \<open>
  What the inherited \<open>SimpleHTTPRequestHandler\<close> code answers to a request it serves
  (a file, a directory listing, a redirect or an error): a status, its message, the
  headers it sends and the body. The library sends it through the handler's own
  methods, so the headers end with the \<open>end_headers\<close> of this class.
\<close>

record reply =
  reply_code :: nat
  reply_message :: string
  reply_headers :: "(string \<times> string) list"
  reply_body :: "string option"

definition send_reply :: "reply \<Rightarrow> handler \<Rightarrow> handler" where
  "send_reply r h =
     (let h1 = send_response (reply_code r) (Some (reply_message r)) h;
          h2 = fold (\<lambda>kv. send_header (fst kv) (snd kv)) (reply_headers r) h1;
          h3 = end_headers h2
      in (case reply_body r of None \<Rightarrow> h3 | Some b \<Rightarrow> wfile_write b h3))"

text \<open>\<open>super().do_GET()\<close>, given the library's answer for the path.\<close>

definition super_do_GET :: "reply \<Rightarrow> handler \<Rightarrow> handler" where
  "super_do_GET static h = send_reply static h"

definition do_GET :: "reply \<Rightarrow> handler \<Rightarrow> handler" where
  "do_GET static h =
     (if path h = ''/api/encryption-key'' then
        (if truthy (encryption_key h) then
           (let h1 = send_response 200 None h;
                h2 = send_header ''Content-Type'' ''application/json'' h1;
                h3 = end_headers h2
            in wfile_write (json_dumps (PyDict [(py ''key'', encryption_key h)])) h3)
         else
           (let h1 = send_response 404 None h;
                h2 = end_headers h1
            in wfile_write ''Encryption key not configured'' h2))
      else super_do_GET static h)"

subsection \<open>Loading the key\<close>

text \<open>
  The state of \<open>local_config.json\<close> when a handler is constructed, by what the
  library calls on it do: \<open>os.path.exists\<close> is false; \<open>open\<close> raises; \<open>json.load\<close>
  raises (malformed JSON, undecodable bytes); \<open>json.load\<close> returns a value.
\<close>

datatype config_file = Missing | Unreadable | Malformed | Contains pyval

fun os_path_exists :: "config_file \<Rightarrow> bool" where
  "os_path_exists Missing = False"
| "os_path_exists _ = True"

text \<open>\<open>config.get(k)\<close>: a \<open>dict\<close> has the method, no other JSON value does.\<close>

fun config_get :: "pyval \<Rightarrow> pystr \<Rightarrow> exception + pyval" where
  "config_get (PyDict kvs) k = Inr (case map_of kvs k of None \<Rightarrow> PyNone | Some v \<Rightarrow> v)"
| "config_get _ k = Inl AttributeError"

text \<open>The body of the \<open>try\<close>: \<open>open\<close>, \<open>json.load\<close>, \<open>config.get\<close>.\<close>

fun load_local_config :: "config_file \<Rightarrow> exception + pyval" where
  "load_local_config Missing = Inl OSError"
| "load_local_config Unreadable = Inl OSError"
| "load_local_config Malformed = Inl ValueError"
| "load_local_config (Contains config) = config_get config (py ''VITE_ENCRYPTION_KEY'')"

definition os_environ_get :: "(string \<Rightarrow> pystr option) \<Rightarrow> string \<Rightarrow> pyval" where
  "os_environ_get env k = (case env k of None \<Rightarrow> PyNone | Some v \<Rightarrow> PyStr v)"

text \<open>
  Lines 9 to 22 of \<open>__init__\<close>: the value \<open>self.encryption_key\<close> has when
  \<open>super().__init__\<close> is called. \<open>except Exception\<close> catches every exception the
  \<open>try\<close> body raises.
\<close>

definition load_encryption_key :: "(string \<Rightarrow> pystr option) \<Rightarrow> config_file \<Rightarrow> pyval" where
  "load_encryption_key env f =
     (let k = os_environ_get env ''VITE_ENCRYPTION_KEY''
      in if \<not> truthy k then
           (if os_path_exists f then
              (case load_local_config f of
                 Inr v \<Rightarrow> v
               | Inl e \<Rightarrow> PyNone)
            else PyNone)
         else k)"

subsection \<open>The inherited code that handles a request\<close>

text \<open>
  \<open>send_error\<close> of the library: the status line and the headers of an error, ended by
  \<open>self.end_headers()\<close>, and the error page.
\<close>

definition send_error :: "nat \<Rightarrow> string option \<Rightarrow> handler \<Rightarrow> handler" where
  "send_error code message h =
     (let msg = (case message of
                   Some m \<Rightarrow> m
                 | None \<Rightarrow> (case responses code of Some m \<Rightarrow> m | None \<Rightarrow> ''???''));
          h1 = send_response code (Some msg) h;
          h2 = send_header ''Connection'' ''close'' h1;
          body = (if 200 \<le> code \<and> code \<notin> {204, 205, 304}
                  then Some (error_message_format h code msg) else None);
          h3 = (case body of
                  None \<Rightarrow> h2
                | Some b \<Rightarrow>
                    send_header ''Content-Length'' (str_nat (length b))
                      (send_header ''Content-Type'' ''text/html;charset=utf-8'' h2));
          h4 = end_headers h3
      in (case body of
            None \<Rightarrow> h4
          | Some b \<Rightarrow> if command h \<noteq> Some ''HEAD'' \<and> b \<noteq> [] then wfile_write b h4 else h4))"

text \<open>
  What arrives with one accepted connection, beside the request itself: the state of
  \<open>local_config.json\<close> at that moment, the date, and what the inherited static file
  code would answer (to \<open>super().do_GET()\<close>, or to a \<open>HEAD\<close>).
\<close>

record moment =
  local_config :: config_file
  date :: string
  inherited :: reply

datatype header_block = HeadersRead | LineTooLong | TooManyHeaders

text \<open>
  A request as it arrives: the bytes of its first line (\<open>rfile.readline(65537)\<close>,
  empty when the client has closed), and what \<open>http.client.parse_headers\<close> does on the
  lines after it (it returns, or raises \<open>LineTooLong\<close> or another \<open>HTTPException\<close>).
\<close>

record request = moment +
  raw_requestline :: string
  headers :: header_block

text \<open>The version check of \<open>parse_request\<close>; \<open>Inl\<close> when it has sent an error.\<close>

definition check_version :: "string \<Rightarrow> handler \<Rightarrow> handler + handler" where
  "check_version version h =
     (case parse_version version of
        None \<Rightarrow>
          Inl (send_error 400 (Some (''Bad request version ('' @ repr h version @ '')'')) h)
      | Some version_number \<Rightarrow>
          if 2 \<le> fst version_number then
            Inl (send_error 505 (Some (''Invalid HTTP version ('' @ drop 5 version @ '')'')) h)
          else Inr (h\<lparr>request_version := version\<rparr>))"

text \<open>
  \<open>parse_request\<close>: whether the request is accepted, and the handler it leaves. The
  class serves with protocol version 1.0, so a connection is closed after its request
  and \<open>Expect: 100-continue\<close> is not answered.
\<close>

definition parse_request :: "request \<Rightarrow> handler \<Rightarrow> bool \<times> handler" where
  "parse_request rq h =
     (let h0 = h\<lparr>command := None, request_version := ''HTTP/0.9''\<rparr>;
          requestline = rstrip_crlf (raw_requestline rq);
          words = str_split requestline
      in if length words = 0 then (False, h0)
         else
           (case (if 3 \<le> length words then check_version (last words) h0 else Inr h0) of
              Inl refused \<Rightarrow> (False, refused)
            | Inr h1 \<Rightarrow>
                if \<not> (2 \<le> length words \<and> length words \<le> 3) then
                  (False,
                   send_error 400
                     (Some (''Bad request syntax ('' @ repr h1 requestline @ '')'')) h1)
                else if length words = 2 \<and> words ! 0 \<noteq> ''GET'' then
                  (False,
                   send_error 400
                     (Some (''Bad HTTP/0.9 request type ('' @ repr h1 (words ! 0) @ '')'')) h1)
                else
                  (let h2 = h1\<lparr>command := Some (words ! 0), path := words ! 1\<rparr>;
                       h3 = (if take 2 (path h2) = ''//''
                             then h2\<lparr>path := CHR ''/'' # dropWhile (\<lambda>c. c = CHR ''/'') (path h2)\<rparr>
                             else h2)
                   in (case headers rq of
                         LineTooLong \<Rightarrow> (False, send_error 431 (Some ''Line too long'') h3)
                       | TooManyHeaders \<Rightarrow> (False, send_error 431 (Some ''Too many headers'') h3)
                       | HeadersRead \<Rightarrow> (True, h3)))))"

text \<open>
  The last lines of \<open>handle_one_request\<close>: the method \<open>do_\<close> + command if the class has
  one. This class defines \<open>do_GET\<close> and \<open>do_OPTIONS\<close> and inherits \<open>do_HEAD\<close>.
\<close>

definition call_method :: "reply \<Rightarrow> handler \<Rightarrow> handler" where
  "call_method r h =
     (case command h of
        None \<Rightarrow> h
      | Some m \<Rightarrow>
          if m = ''GET'' then do_GET r h
          else if m = ''OPTIONS'' then do_OPTIONS h
          else if m = ''HEAD'' then send_reply r h
          else send_error 501 (Some (''Unsupported method ('' @ repr h m @ '')'')) h)"

definition handle_one_request :: "request \<Rightarrow> handler \<Rightarrow> handler" where
  "handle_one_request rq h =
     (if 65536 < length (raw_requestline rq) then
        send_error 414 None (h\<lparr>request_version := [], command := Some []\<rparr>)
      else if raw_requestline rq = [] then h
      else (case parse_request rq h of
              (False, refused) \<Rightarrow> refused
            | (True, parsed) \<Rightarrow> call_method (inherited rq) parsed))"

subsection \<open>One request, and a run of the server\<close>

text \<open>
  What the server's process holds from its start to its end: the environment, and of
  the library its version string, \<open>repr\<close> and the format of its error pages.
\<close>

record process =
  environ :: "string \<Rightarrow> pystr option"
  server_version :: string
  py_repr :: "string \<Rightarrow> string"
  error_page :: "nat \<Rightarrow> string \<Rightarrow> string"

text \<open>The handler as \<open>__init__\<close> hands it to \<open>super().__init__\<close>, the key loaded.\<close>

definition new_handler :: "process \<Rightarrow> config_file \<Rightarrow> string \<Rightarrow> handler" where
  "new_handler p f d =
     \<lparr>encryption_key = load_encryption_key (environ p) f,
      command = None,
      path = [],
      request_version = ''HTTP/0.9'',
      version_string = server_version p,
      date_time_string = d,
      repr = py_repr p,
      error_message_format = error_page p,
      headers_buffer = [],
      wfile = []\<rparr>"

text \<open>
  \<open>CORSRequestHandler.__init__\<close>: the server constructs one handler for each
  connection it accepts; the constructor loads the key and then, in
  \<open>super().__init__\<close>, handles the request.
\<close>

definition CORSRequestHandler_init :: "process \<Rightarrow> request \<Rightarrow> handler" where
  "CORSRequestHandler_init p rq =
     handle_one_request rq (new_handler p (local_config rq) (date rq))"

text \<open>
  A request of HTTP/1.0 or HTTP/1.1 that \<open>parse_request\<close> has accepted, as the handler
  holds it then: \<open>self.command\<close> and \<open>self.path\<close>. What the client of such a
  connection receives is the same for every version word but \<open>HTTP/0.9\<close> (lemma
  \<open>accepted_request_response\<close> below).
\<close>

record connection = moment +
  request_command :: string
  request_path :: string

definition response :: "process \<Rightarrow> connection \<Rightarrow> wire list" where
  "response p c =
     wfile (call_method (inherited c)
       ((new_handler p (local_config c) (date c))
          \<lparr>command := Some (request_command c),
           path := request_path c,
           request_version := ''HTTP/1.0''\<rparr>))"

text \<open>
  \<open>HTTPServer(('127.0.0.1', port), CORSRequestHandler).serve_forever()\<close>: the
  connections of one run, each answered by a handler of its own.
\<close>

definition serve_forever :: "process \<Rightarrow> connection list \<Rightarrow> wire list list" where
  "serve_forever p cs = map (response p) cs"

text \<open>The bytes of the body a client reads after the blank line.\<close>

fun sent_body :: "wire list \<Rightarrow> string" where
  "sent_body [] = []"
| "sent_body (Body b # ws) = b @ sent_body ws"
| "sent_body (w # ws) = sent_body ws"

text \<open>The five header lines of \<open>end_headers\<close>, in the order it sends them.\<close>

abbreviation policy_lines :: "wire list" where
  "policy_lines \<equiv>
     [HeaderLine ''Access-Control-Allow-Origin'' ''*'',
      HeaderLine ''Access-Control-Allow-Methods'' ''GET, POST, OPTIONS'',
      HeaderLine ''Access-Control-Allow-Headers'' ''Origin, Content-Type, Accept, Range'',
      HeaderLine ''Cross-Origin-Opener-Policy'' ''same-origin'',
      HeaderLine ''Cross-Origin-Embedder-Policy'' ''require-corp'']"

section \<open>launch.py\<close>

text \<open>
  \<open>find_free_port\<close> tries \<open>sock.bind(('localhost', port))\<close> on a fresh socket for each
  port of the range. For a port outside 0 to 65535 the call raises \<open>OverflowError\<close>.
  For a port inside, the parameter \<open>bind\<close> says whether the call succeeds; otherwise it
  raises \<open>OSError\<close>. \<open>None\<close> is the call that returns.
\<close>

definition sock_bind :: "(int \<Rightarrow> bool) \<Rightarrow> int \<Rightarrow> exception option" where
  "sock_bind bind port =
     (if port < 0 \<or> 65535 < port then Some OverflowError
      else if bind port then None
      else Some OSError)"

definition range_list :: "int \<Rightarrow> int \<Rightarrow> int list" where
  "range_list a b = [a..b - 1]"

text \<open>The loop: \<open>except OSError: continue\<close>; any other exception leaves the function.\<close>

fun find_free_port_loop :: "(int \<Rightarrow> bool) \<Rightarrow> int list \<Rightarrow> exception + int" where
  "find_free_port_loop bind [] = Inl RuntimeError"
| "find_free_port_loop bind (port # ports) =
     (case sock_bind bind port of
        None \<Rightarrow> Inr port
      | Some e \<Rightarrow> if e = OSError then find_free_port_loop bind ports else Inl e)"

definition find_free_port :: "(int \<Rightarrow> bool) \<Rightarrow> int \<Rightarrow> int \<Rightarrow> exception + int" where
  "find_free_port bind start_port max_attempts =
     find_free_port_loop bind (range_list start_port (start_port + max_attempts))"

definition check_files :: "(string \<Rightarrow> bool) \<Rightarrow> bool" where
  "check_files exists =
     (let required_files = [''index.html'', ''assets/YBot.fbx''];
          missing_files = filter (\<lambda>file_path. \<not> exists file_path) required_files
      in if missing_files \<noteq> [] then False else True)"

text \<open>
  \<open>main\<close> up to the call of \<open>start_server\<close>: it leaves through \<open>sys.exit\<close>, lets an
  exception it does not catch pass, or starts the server on the port found.
\<close>

datatype outcome = SysExit int | Uncaught exception | StartServer int

definition main :: "(string \<Rightarrow> bool) \<Rightarrow> (int \<Rightarrow> bool) \<Rightarrow> outcome" where
  "main exists bind =
     (if \<not> check_files exists then SysExit 1
      else (case find_free_port bind 8000 100 of
              Inl e \<Rightarrow> (if e = RuntimeError then SysExit 1 else Uncaught e)
            | Inr port \<Rightarrow> StartServer port))"

section \<open>Example inputs\<close>

text \<open>\<open>repr\<close> of a word without quotes, backslashes and control characters.\<close>

definition quoted :: "string \<Rightarrow> string" where
  "quoted s = [CHR 0x27] @ s @ [CHR 0x27]"

definition page :: "nat \<Rightarrow> string \<Rightarrow> string" where
  "page code message = ''<p>Error code: '' @ str_nat code @ ''</p><p>Message: '' @ message @ ''.</p>''"

definition proc_env :: "pystr \<Rightarrow> process" where
  "proc_env v =
     \<lparr>environ = Map.empty(''VITE_ENCRYPTION_KEY'' \<mapsto> v),
      server_version = ''SimpleHTTP/0.6 Python/3.11.10'',
      py_repr = quoted,
      error_page = page\<rparr>"

definition proc_no_env :: process where
  "proc_no_env =
     \<lparr>environ = Map.empty,
      server_version = ''SimpleHTTP/0.6 Python/3.11.10'',
      py_repr = quoted,
      error_page = page\<rparr>"

definition not_found :: reply where
  "not_found =
     \<lparr>reply_code = 404, reply_message = ''File not found'',
      reply_headers = [(''Content-Type'', ''text/html;charset=utf-8''), (''Content-Length'', ''9'')],
      reply_body = Some ''not found''\<rparr>"

definition index_html :: reply where
  "index_html =
     \<lparr>reply_code = 200, reply_message = ''OK'',
      reply_headers = [(''Content-type'', ''text/html''), (''Content-Length'', ''5'')],
      reply_body = Some ''hello''\<rparr>"

definition conn :: "string \<Rightarrow> string \<Rightarrow> config_file \<Rightarrow> reply \<Rightarrow> connection" where
  "conn m target f r =
     \<lparr>local_config = f, date = ''Tue, 03 Nov 2026 20:00:00 GMT'', inherited = r,
      request_command = m, request_path = target\<rparr>"

text \<open>The request whose first line is \<open>line\<close>, with a header block that is read.\<close>

definition req :: "string \<Rightarrow> config_file \<Rightarrow> reply \<Rightarrow> request" where
  "req line f r =
     \<lparr>local_config = f, date = ''Tue, 03 Nov 2026 20:00:00 GMT'', inherited = r,
      raw_requestline = line @ [CHR 0x0D, CHR 0x0A], headers = HeadersRead\<rparr>"

definition config_with :: "pyval \<Rightarrow> config_file" where
  "config_with v = Contains (PyDict [(py ''VITE_ENCRYPTION_KEY'', v)])"

definition free_from :: "int \<Rightarrow> int \<Rightarrow> bool" where
  "free_from n port = (n \<le> port)"

definition all_files :: "string \<Rightarrow> bool" where
  "all_files file_path = True"

section \<open>What each method sends\<close>

lemma send_header_1x:
  "request_version h \<noteq> ''HTTP/0.9'' \<Longrightarrow>
   send_header keyword v h = h\<lparr>headers_buffer := headers_buffer h @ [HeaderLine keyword v]\<rparr>"
  by (simp add: send_header_def)

lemma send_response_1x:
  "request_version h \<noteq> ''HTTP/0.9'' \<Longrightarrow>
   send_response code message h =
     h\<lparr>headers_buffer := headers_buffer h @
        [StatusLine code (case message of
                            Some m \<Rightarrow> m
                          | None \<Rightarrow> (case responses code of Some m \<Rightarrow> m | None \<Rightarrow> [])),
         HeaderLine ''Server'' (version_string h),
         HeaderLine ''Date'' (date_time_string h)]\<rparr>"
  by (simp add: send_response_def send_response_only_def send_header_def Let_def)

lemma end_headers_1x:
  "request_version h \<noteq> ''HTTP/0.9'' \<Longrightarrow>
   end_headers h =
     h\<lparr>wfile := wfile h @ headers_buffer h @ policy_lines @ [BlankLine], headers_buffer := []\<rparr>"
  by (simp add: end_headers_def super_end_headers_def send_header_def Let_def)

lemma send_header_09:
  "request_version h = ''HTTP/0.9'' \<Longrightarrow> send_header keyword v h = h"
  by (simp add: send_header_def)

lemma send_response_09:
  "request_version h = ''HTTP/0.9'' \<Longrightarrow> send_response code message h = h"
  by (simp add: send_response_def send_response_only_def send_header_def Let_def)

lemma end_headers_09:
  "request_version h = ''HTTP/0.9'' \<Longrightarrow> end_headers h = h"
  by (simp add: end_headers_def super_end_headers_def send_header_def Let_def)

lemmas http_1x = send_header_1x send_response_1x end_headers_1x wfile_write_def Let_def

lemmas http_09 = send_header_09 send_response_09 end_headers_09 wfile_write_def Let_def

lemma fold_send_header:
  "request_version h \<noteq> ''HTTP/0.9'' \<Longrightarrow>
   fold (\<lambda>kv. send_header (fst kv) (snd kv)) hs h =
     h\<lparr>headers_buffer := headers_buffer h @ map (\<lambda>kv. HeaderLine (fst kv) (snd kv)) hs\<rparr>"
  by (induction hs arbitrary: h) (simp_all add: send_header_1x)

lemma wfile_send_reply:
  "request_version h \<noteq> ''HTTP/0.9'' \<Longrightarrow>
   wfile (send_reply r h) =
     wfile h @ headers_buffer h
       @ [StatusLine (reply_code r) (reply_message r),
          HeaderLine ''Server'' (version_string h),
          HeaderLine ''Date'' (date_time_string h)]
       @ map (\<lambda>kv. HeaderLine (fst kv) (snd kv)) (reply_headers r)
       @ policy_lines @ [BlankLine]
       @ (case reply_body r of None \<Rightarrow> [] | Some b \<Rightarrow> [Body b])"
  by (simp add: send_reply_def fold_send_header http_1x split: option.split)


lemma wfile_do_OPTIONS:
  "request_version h \<noteq> ''HTTP/0.9'' \<Longrightarrow>
   wfile (do_OPTIONS h) =
     wfile h @ headers_buffer h
       @ [StatusLine 200 ''ok'',
          HeaderLine ''Server'' (version_string h),
          HeaderLine ''Date'' (date_time_string h)]
       @ policy_lines @ [BlankLine]"
  by (simp add: do_OPTIONS_def http_1x)

lemma wfile_do_GET_key:
  "request_version h \<noteq> ''HTTP/0.9'' \<Longrightarrow>
   path h = ''/api/encryption-key'' \<Longrightarrow> truthy (encryption_key h) \<Longrightarrow>
   wfile (do_GET r h) =
     wfile h @ headers_buffer h
       @ [StatusLine 200 ''OK'',
          HeaderLine ''Server'' (version_string h),
          HeaderLine ''Date'' (date_time_string h),
          HeaderLine ''Content-Type'' ''application/json'']
       @ policy_lines
       @ [BlankLine, Body (json_dumps (PyDict [(py ''key'', encryption_key h)]))]"
  by (simp add: do_GET_def http_1x responses_def del: json_dumps.simps)

lemma wfile_do_GET_no_key:
  "request_version h \<noteq> ''HTTP/0.9'' \<Longrightarrow>
   path h = ''/api/encryption-key'' \<Longrightarrow> \<not> truthy (encryption_key h) \<Longrightarrow>
   wfile (do_GET r h) =
     wfile h @ headers_buffer h
       @ [StatusLine 404 ''Not Found'',
          HeaderLine ''Server'' (version_string h),
          HeaderLine ''Date'' (date_time_string h)]
       @ policy_lines
       @ [BlankLine, Body ''Encryption key not configured'']"
  by (simp add: do_GET_def http_1x responses_def del: json_dumps.simps)

lemma do_GET_other:
  "path h \<noteq> ''/api/encryption-key'' \<Longrightarrow> do_GET r h = send_reply r h"
  by (simp add: do_GET_def super_do_GET_def)

lemma wfile_do_GET_key_09:
  "request_version h = ''HTTP/0.9'' \<Longrightarrow>
   path h = ''/api/encryption-key'' \<Longrightarrow>
   wfile (do_GET r h) =
     wfile h @ [Body (if truthy (encryption_key h)
                      then json_dumps (PyDict [(py ''key'', encryption_key h)])
                      else ''Encryption key not configured'')]"
  by (simp add: do_GET_def http_09 del: json_dumps.simps)

lemma wfile_do_OPTIONS_09:
  "request_version h = ''HTTP/0.9'' \<Longrightarrow> wfile (do_OPTIONS h) = wfile h"
  by (simp add: do_OPTIONS_def http_09)

lemma encode_key_literal:
  \<open>encode_basestring_ascii (py ''key'') = ''"key"''\<close>
  by code_simp

lemma escape_char_plain:
  "0x20 \<le> n \<Longrightarrow> n \<le> 0x7E \<Longrightarrow> n \<noteq> 0x22 \<Longrightarrow> n \<noteq> 0x5C \<Longrightarrow> escape_char n = [char_of n]"
  by (simp add: escape_char_def)

lemma concat_escape_plain:
  "\<forall>n \<in> set v. 0x20 \<le> n \<and> n \<le> 0x7E \<and> n \<noteq> 0x22 \<and> n \<noteq> 0x5C \<Longrightarrow>
   concat (map escape_char v) = map char_of v"
  by (induction v) (simp_all add: escape_char_plain)

lemma map_char_of_py: "map char_of (py s) = s"
  unfolding py_def by (induction s) simp_all

subsection \<open>An accepted request of HTTP/1.0 or HTTP/1.1\<close>

lemma response_OPTIONS:
  "request_command c = ''OPTIONS'' \<Longrightarrow>
   response p c =
     [StatusLine 200 ''ok'', HeaderLine ''Server'' (server_version p), HeaderLine ''Date'' (date c)]
       @ policy_lines @ [BlankLine]"
  by (simp add: response_def call_method_def new_handler_def wfile_do_OPTIONS)

lemma response_GET_key:
  "request_command c = ''GET'' \<Longrightarrow> request_path c = ''/api/encryption-key'' \<Longrightarrow>
   truthy (load_encryption_key (environ p) (local_config c)) \<Longrightarrow>
   response p c =
     [StatusLine 200 ''OK'', HeaderLine ''Server'' (server_version p), HeaderLine ''Date'' (date c),
      HeaderLine ''Content-Type'' ''application/json'']
       @ policy_lines
       @ [BlankLine,
          Body (json_dumps (PyDict [(py ''key'', load_encryption_key (environ p) (local_config c))]))]"
  by (simp add: response_def call_method_def new_handler_def wfile_do_GET_key)

lemma response_GET_no_key:
  "request_command c = ''GET'' \<Longrightarrow> request_path c = ''/api/encryption-key'' \<Longrightarrow>
   \<not> truthy (load_encryption_key (environ p) (local_config c)) \<Longrightarrow>
   response p c =
     [StatusLine 404 ''Not Found'', HeaderLine ''Server'' (server_version p),
      HeaderLine ''Date'' (date c)]
       @ policy_lines
       @ [BlankLine, Body ''Encryption key not configured'']"
  by (simp add: response_def call_method_def new_handler_def wfile_do_GET_no_key)

lemma response_GET_other:
  "request_command c = ''GET'' \<Longrightarrow> request_path c \<noteq> ''/api/encryption-key'' \<Longrightarrow>
   response p c =
     [StatusLine (reply_code (inherited c)) (reply_message (inherited c)),
      HeaderLine ''Server'' (server_version p), HeaderLine ''Date'' (date c)]
       @ map (\<lambda>kv. HeaderLine (fst kv) (snd kv)) (reply_headers (inherited c))
       @ policy_lines @ [BlankLine]
       @ (case reply_body (inherited c) of None \<Rightarrow> [] | Some b \<Rightarrow> [Body b])"
  by (simp add: response_def call_method_def new_handler_def do_GET_other wfile_send_reply)

section \<open>What the library does before it calls a method\<close>

lemma wfile_send_error:
  "request_version h \<noteq> ''HTTP/0.9'' \<Longrightarrow>
   wfile (send_error code (Some msg) h) =
     wfile h @ headers_buffer h
       @ [StatusLine code msg,
          HeaderLine ''Server'' (version_string h),
          HeaderLine ''Date'' (date_time_string h),
          HeaderLine ''Connection'' ''close'']
       @ (if 200 \<le> code \<and> code \<notin> {204, 205, 304}
          then [HeaderLine ''Content-Type'' ''text/html;charset=utf-8'',
                HeaderLine ''Content-Length'' (str_nat (length (error_message_format h code msg)))]
          else [])
       @ policy_lines @ [BlankLine]
       @ (if 200 \<le> code \<and> code \<notin> {204, 205, 304} \<and> command h \<noteq> Some ''HEAD''
             \<and> error_message_format h code msg \<noteq> []
          then [Body (error_message_format h code msg)] else [])"
  by (simp add: send_error_def http_1x)

lemma send_error_fields:
  "encryption_key (send_error code m h) = encryption_key h \<and>
   request_version (send_error code m h) = request_version h"
  by (cases "request_version h = ''HTTP/0.9''")
    (simp_all add: send_error_def http_1x http_09 split: option.split)

lemma fold_send_header_09:
  "request_version h = ''HTTP/0.9'' \<Longrightarrow>
   fold (\<lambda>kv. send_header (fst kv) (snd kv)) hs h = h"
  by (induction hs) (simp_all add: send_header_09)

lemma send_reply_fields:
  "encryption_key (send_reply r h) = encryption_key h"
  by (cases "request_version h = ''HTTP/0.9''")
    (simp_all add: send_reply_def fold_send_header fold_send_header_09 http_1x http_09
      split: option.split)


lemma wfile_send_reply_09:
  "request_version h = ''HTTP/0.9'' \<Longrightarrow>
   wfile (send_reply r h) = wfile h @ (case reply_body r of None \<Rightarrow> [] | Some b \<Rightarrow> [Body b])"
  by (simp add: send_reply_def fold_send_header_09 http_09 split: option.split)

lemma do_OPTIONS_fields:
  "encryption_key (do_OPTIONS h) = encryption_key h"
  by (cases "request_version h = ''HTTP/0.9''") (simp_all add: do_OPTIONS_def http_1x http_09)

lemma do_GET_fields:
  "encryption_key (do_GET r h) = encryption_key h"
  by (cases "request_version h = ''HTTP/0.9''")
    (simp_all add: do_GET_def super_do_GET_def send_reply_fields http_1x http_09
      del: json_dumps.simps)

lemma call_method_fields:
  "encryption_key (call_method r h) = encryption_key h"
  by (simp add: call_method_def do_GET_fields do_OPTIONS_fields send_reply_fields
      send_error_fields split: option.split)

lemma check_version_cases:
  "check_version version h = Inr h1 \<Longrightarrow>
     h1 = h\<lparr>request_version := version\<rparr> \<and>
     (\<exists>a b. parse_version version = Some (a, b) \<and> a < 2)"
  "check_version version h = Inl refused \<Longrightarrow>
     \<exists>code msg. refused = send_error code (Some msg) h"
  by (auto simp add: check_version_def split: option.splits if_splits)

lemma parse_request_outcome:
  assumes "parse_request rq h = (b, h')"
  shows "(b \<and> (\<exists>m t v. h' = h\<lparr>command := Some m, path := t, request_version := v\<rparr>))
    \<or> (\<not> b \<and> h' = h\<lparr>command := None, request_version := ''HTTP/0.9''\<rparr>)
    \<or> (\<not> b \<and> (\<exists>code msg c t v.
          h' = send_error code (Some msg) (h\<lparr>command := c, path := t, request_version := v\<rparr>)))"
proof -
  let ?h0 = "h\<lparr>command := None, request_version := ''HTTP/0.9''\<rparr>"
  let ?words = "str_split (rstrip_crlf (raw_requestline rq))"
  let ?err = "\<lambda>x. \<exists>code msg c t v.
      x = send_error code (Some msg) (h\<lparr>command := c, path := t, request_version := v\<rparr>)"
  have h0: "?h0 = h\<lparr>command := None, path := path h, request_version := ''HTTP/0.9''\<rparr>"
    by simp
  show ?thesis
  proof (cases "length ?words = 0")
    case True
    with assms show ?thesis by (simp add: parse_request_def Let_def)
  next
    case words: False
    show ?thesis
    proof (cases "if 3 \<le> length ?words then check_version (last ?words) ?h0 else Inr ?h0")
      case (Inl refused)
      then have "\<exists>code msg. refused = send_error code (Some msg) ?h0"
        by (auto dest: check_version_cases(2) split: if_splits)
      then have "?err refused"
        by (metis h0)
      moreover have "b = False \<and> h' = refused"
        using assms words Inl by (simp add: parse_request_def Let_def)
      ultimately show ?thesis by blast
    next
      case (Inr h1)
      have "\<exists>v. h1 = h\<lparr>command := None, request_version := v\<rparr>"
      proof (cases "3 \<le> length ?words")
        case True
        with Inr have "check_version (last ?words) ?h0 = Inr h1" by simp
        from check_version_cases(1) [OF this]
        have "h1 = h\<lparr>command := None, request_version := last ?words\<rparr>" by simp
        then show ?thesis by blast
      next
        case False
        with Inr have "h1 = ?h0" by simp
        then show ?thesis by blast
      qed
      then obtain v where h1: "h1 = h\<lparr>command := None, path := path h, request_version := v\<rparr>"
        by auto
      have e1: "?err (send_error code (Some msg) h1)" for code msg
        unfolding h1 by blast
      have e2: "?err (send_error code (Some msg) (h1\<lparr>command := Some m, path := t\<rparr>))" for code msg m t
      proof -
        have "h1\<lparr>command := Some m, path := t\<rparr> = h\<lparr>command := Some m, path := t, request_version := v\<rparr>"
          unfolding h1 by simp
        then show ?thesis by metis
      qed
      have ok: "\<exists>m t v. h1\<lparr>command := Some m', path := t'\<rparr>
          = h\<lparr>command := Some m, path := t, request_version := v\<rparr>" for m' t'
        unfolding h1 by (intro exI [of _ m'] exI [of _ t'] exI [of _ v]) simp
      show ?thesis
        using assms words Inr e1 e2 ok
        by (auto simp add: parse_request_def Let_def split: if_splits header_block.splits)
    qed
  qed
qed


lemma str_split_empty: "str_split (rstrip_crlf []) = []"
  by (simp add: rstrip_crlf_def str_split.simps)

lemma parse_request_empty:
  "raw_requestline rq = [] \<Longrightarrow>
   parse_request rq h = (False, h\<lparr>command := None, request_version := ''HTTP/0.9''\<rparr>)"
  by (simp add: parse_request_def str_split_empty)

lemma handle_accepted:
  assumes "length (raw_requestline rq) \<le> 65536" and "parse_request rq h = (True, h')"
  shows "handle_one_request rq h = call_method (inherited rq) h'"
proof -
  have "raw_requestline rq \<noteq> []"
    using assms(2) by (auto simp add: parse_request_empty)
  with assms show ?thesis by (simp add: handle_one_request_def)
qed

lemma handle_refused:
  assumes "length (raw_requestline rq) \<le> 65536" and "raw_requestline rq \<noteq> []"
    and "parse_request rq h = (False, h')"
  shows "handle_one_request rq h = h'"
  using assms by (simp add: handle_one_request_def)

lemma parse_request_accepted:
  assumes "parse_request rq h = (True, h')"
  shows "encryption_key h' = encryption_key h" and "version_string h' = version_string h"
    and "date_time_string h' = date_time_string h" and "headers_buffer h' = headers_buffer h"
    and "wfile h' = wfile h" and "repr h' = repr h"
    and "error_message_format h' = error_message_format h"
  using parse_request_outcome [OF assms] by auto

lemma parse_request_three:
  assumes "str_split (rstrip_crlf (raw_requestline rq)) = [m, t, v]"
    and "parse_version v = Some (a, b)" and "a < 2" and "headers rq = HeadersRead"
  shows "parse_request rq h =
     (True, h\<lparr>command := Some m,
               path := (if take 2 t = ''//'' then CHR ''/'' # dropWhile (\<lambda>c. c = CHR ''/'') t else t),
               request_version := v\<rparr>)"
  using assms by (simp add: parse_request_def check_version_def Let_def)

lemma parse_request_two:
  assumes "str_split (rstrip_crlf (raw_requestline rq)) = [''GET'', t]"
    and "headers rq = HeadersRead"
  shows "parse_request rq h =
     (True, h\<lparr>command := Some ''GET'',
               path := (if take 2 t = ''//'' then CHR ''/'' # dropWhile (\<lambda>c. c = CHR ''/'') t else t),
               request_version := ''HTTP/0.9''\<rparr>)"
  using assms by (simp add: parse_request_def Let_def)


lemma wfile_call_method_version:
  assumes "v \<noteq> ''HTTP/0.9''" and "v' \<noteq> ''HTTP/0.9''"
  shows "wfile (call_method r (h\<lparr>request_version := v\<rparr>))
       = wfile (call_method r (h\<lparr>request_version := v'\<rparr>))"
proof (cases "command h")
  case None
  then show ?thesis by (simp add: call_method_def)
next
  case (Some m)
  consider (options) "m = ''OPTIONS''"
    | (key) "m = ''GET''" "path h = ''/api/encryption-key''" "truthy (encryption_key h)"
    | (no_key) "m = ''GET''" "path h = ''/api/encryption-key''" "\<not> truthy (encryption_key h)"
    | (static) "m = ''GET''" "path h \<noteq> ''/api/encryption-key''"
    | (head) "m = ''HEAD''"
    | (other) "m \<noteq> ''GET''" "m \<noteq> ''OPTIONS''" "m \<noteq> ''HEAD''"
    by blast
  then show ?thesis
    using assms Some
    by cases
      (simp_all add: call_method_def wfile_do_OPTIONS wfile_do_GET_key wfile_do_GET_no_key
        do_GET_other wfile_send_reply wfile_send_error del: json_dumps.simps)
qed

lemma accepted_request_response:
  assumes "length (raw_requestline rq) \<le> 65536"
    and "parse_request rq (new_handler p (local_config rq) (date rq)) = (True, h)"
    and "request_version h \<noteq> ''HTTP/0.9''"
    and "command h = Some m"
  shows "wfile (CORSRequestHandler_init p rq) =
     response p \<lparr>local_config = local_config rq, date = date rq, inherited = inherited rq,
                 request_command = m, request_path = path h\<rparr>"
proof -
  let ?n = "new_handler p (local_config rq) (date rq)"
  from parse_request_outcome [OF assms(2)]
  obtain m' t v where h: "h = ?n\<lparr>command := Some m', path := t, request_version := v\<rparr>"
    by auto
  with assms(3,4) have v: "v \<noteq> ''HTTP/0.9''" and m: "m' = m" and t: "path h = t"
    by auto
  have "wfile (CORSRequestHandler_init p rq) = wfile (call_method (inherited rq) h)"
    using assms(1,2) by (simp add: CORSRequestHandler_init_def handle_accepted)
  also have "\<dots> = wfile (call_method (inherited rq)
      ((?n\<lparr>command := Some m, path := t\<rparr>)\<lparr>request_version := v\<rparr>))"
    unfolding h m by simp
  also have "\<dots> = wfile (call_method (inherited rq)
      ((?n\<lparr>command := Some m, path := t\<rparr>)\<lparr>request_version := ''HTTP/1.0''\<rparr>))"
    using v by (intro wfile_call_method_version) simp_all
  finally show ?thesis
    by (simp add: response_def t)
qed


lemma encryption_key_handle_one_request:
  "encryption_key (handle_one_request rq h) = encryption_key h"
proof (cases "65536 < length (raw_requestline rq)")
  case True
  then show ?thesis by (simp add: handle_one_request_def send_error_fields)
next
  case short: False
  show ?thesis
  proof (cases "raw_requestline rq = []")
    case True
    with short show ?thesis by (simp add: handle_one_request_def)
  next
    case False
    obtain b h' where p: "parse_request rq h = (b, h')" by (cases "parse_request rq h")
    from parse_request_outcome [OF p] have k: "encryption_key h' = encryption_key h"
      by (auto simp add: send_error_fields)
    show ?thesis
    proof (cases b)
      case True
      with p short show ?thesis
        by (simp add: handle_accepted call_method_fields k)
    next
      case b: False
      with p short False show ?thesis
        by (simp add: handle_refused k)
    qed
  qed
qed

section \<open>Loading the key: its cases\<close>

lemma load_env_set:
  "env ''VITE_ENCRYPTION_KEY'' = Some v \<Longrightarrow> v \<noteq> [] \<Longrightarrow>
   load_encryption_key env f = PyStr v"
  by (simp add: load_encryption_key_def os_environ_get_def)

lemma load_env_unset:
  "env ''VITE_ENCRYPTION_KEY'' = None \<or> env ''VITE_ENCRYPTION_KEY'' = Some [] \<Longrightarrow>
   load_encryption_key env f =
     (if os_path_exists f
      then (case load_local_config f of Inr v \<Rightarrow> v | Inl e \<Rightarrow> PyNone)
      else PyNone)"
  by (auto simp add: load_encryption_key_def os_environ_get_def)


lemma load_no_env_no_config:
  "env ''VITE_ENCRYPTION_KEY'' = None \<Longrightarrow> f = Missing \<or> f = Unreadable \<or> f = Malformed \<Longrightarrow>
   load_encryption_key env f = PyNone"
  by (auto simp add: load_env_unset)

lemma load_config_with:
  "env ''VITE_ENCRYPTION_KEY'' = None \<or> env ''VITE_ENCRYPTION_KEY'' = Some [] \<Longrightarrow>
   load_encryption_key env (config_with v) = v"
  by (simp add: load_env_unset config_with_def)


lemma sent_body_GET_key:
  "request_command c = ''GET'' \<Longrightarrow> request_path c = ''/api/encryption-key'' \<Longrightarrow>
   sent_body (response p c) =
     (if truthy (load_encryption_key (environ p) (local_config c))
      then json_dumps (PyDict [(py ''key'', load_encryption_key (environ p) (local_config c))])
      else ''Encryption key not configured'')"
  by (simp add: response_GET_key response_GET_no_key)

section \<open>The port search\<close>

lemma find_free_port_loop_Inr:
  "0 \<le> a \<Longrightarrow> b \<le> 65535 \<Longrightarrow>
   find_free_port_loop bind [a..b] = Inr p \<longleftrightarrow>
     a \<le> p \<and> p \<le> b \<and> bind p \<and> (\<forall>q. a \<le> q \<and> q < p \<longrightarrow> \<not> bind q)"
proof (induction a b rule: upto.induct)
  case (1 i j)
  show ?case
  proof (cases "i \<le> j")
    case False
    then show ?thesis by simp
  next
    case True
    then have unfold: "[i..j] = i # [i + 1..j]" by (simp add: upto_rec1)
    have bind_i: "sock_bind bind i = (if bind i then None else Some OSError)"
      using True 1(2,3) by (simp add: sock_bind_def)
    show ?thesis
    proof (cases "bind i")
      case True
      then show ?thesis using \<open>i \<le> j\<close> unfold bind_i
        by (auto simp: not_less)
    next
      case False
      have ih: "find_free_port_loop bind [i + 1..j] = Inr p \<longleftrightarrow>
          i + 1 \<le> p \<and> p \<le> j \<and> bind p \<and> (\<forall>q. i + 1 \<le> q \<and> q < p \<longrightarrow> \<not> bind q)"
        using 1 True by simp
      show ?thesis using False \<open>i \<le> j\<close> unfold bind_i ih
        apply simp
        by (metis add1_zle_eq order_le_less)
    qed
  qed
qed

lemma find_free_port_loop_Inl:
  "0 \<le> a \<Longrightarrow> b \<le> 65535 \<Longrightarrow>
   find_free_port_loop bind [a..b] = Inl e \<longleftrightarrow>
     e = RuntimeError \<and> (\<forall>q. a \<le> q \<and> q \<le> b \<longrightarrow> \<not> bind q)"
proof (induction a b rule: upto.induct)
  case (1 i j)
  show ?case
  proof (cases "i \<le> j")
    case False
    then show ?thesis by auto
  next
    case True
    then have unfold: "[i..j] = i # [i + 1..j]" by (simp add: upto_rec1)
    have bind_i: "sock_bind bind i = (if bind i then None else Some OSError)"
      using True 1(2,3) by (simp add: sock_bind_def)
    show ?thesis
    proof (cases "bind i")
      case True
      then show ?thesis using \<open>i \<le> j\<close> unfold bind_i by auto
    next
      case False
      have ih: "find_free_port_loop bind [i + 1..j] = Inl e \<longleftrightarrow>
          e = RuntimeError \<and> (\<forall>q. i + 1 \<le> q \<and> q \<le> j \<longrightarrow> \<not> bind q)"
        using 1 True by simp
      show ?thesis using False \<open>i \<le> j\<close> unfold bind_i ih
        apply simp
        by (metis add1_zle_eq order_le_less)
    qed
  qed
qed

section \<open>The example requests\<close>

lemma split_get_key_11:
  "str_split (rstrip_crlf (raw_requestline (req ''GET /api/encryption-key HTTP/1.1'' f r)))
   = [''GET'', ''/api/encryption-key'', ''HTTP/1.1'']"
  by (simp add: req_def) code_simp

lemma split_get_index_11:
  "str_split (rstrip_crlf (raw_requestline (req ''GET /index.html HTTP/1.1'' f r)))
   = [''GET'', ''/index.html'', ''HTTP/1.1'']"
  by (simp add: req_def) code_simp

lemma split_options_10:
  "str_split (rstrip_crlf (raw_requestline (req ''OPTIONS /anything HTTP/1.0'' f r)))
   = [''OPTIONS'', ''/anything'', ''HTTP/1.0'']"
  by (simp add: req_def) code_simp


lemma split_get_slashes_10:
  "str_split (rstrip_crlf (raw_requestline (req ''GET //api/encryption-key HTTP/1.0'' f r)))
   = [''GET'', ''//api/encryption-key'', ''HTTP/1.0'']"
  by (simp add: req_def) code_simp

lemma parse_version_11: "parse_version ''HTTP/1.1'' = Some (1, 1)"
  by code_simp

lemma parse_version_10: "parse_version ''HTTP/1.0'' = Some (1, 0)"
  by code_simp

section \<open>The claims about cors\_server.py\<close>

text \<open>
  Claim C1 says that the key is resolved once, when the server starts, and that no
  request re-reads the environment variable or the local configuration file, so that
  one run always serves the same value. The code loads the key in the constructor of
  the handler, and the server constructs a handler for every connection. In the run
  below the environment variable is unset and \<open>local_config.json\<close> holds the key
  \<open>a\<close> at the first request and the key \<open>b\<close> at the second: the two requests for
  \<open>/api/encryption-key\<close> are answered with different values.
\<close>

theorem key_reloaded_for_each_request:
  \<open>map sent_body
     (serve_forever proc_no_env
        [conn ''GET'' ''/api/encryption-key'' (config_with (PyStr (py ''a''))) not_found,
         conn ''GET'' ''/api/encryption-key'' (config_with (PyStr (py ''b''))) not_found])
   = [''{"key": "a"}'', ''{"key": "b"}'']\<close>
proof -
  have a: \<open>json_dumps (PyDict [(py ''key'', PyStr (py ''a''))]) = ''{"key": "a"}''\<close>
    by code_simp
  have b: \<open>json_dumps (PyDict [(py ''key'', PyStr (py ''b''))]) = ''{"key": "b"}''\<close>
    by code_simp
  have t: "truthy (PyStr (py ''a''))" "truthy (PyStr (py ''b''))"
    by (simp_all add: py_def)
  show ?thesis
    using t
    by (simp add: serve_forever_def sent_body_GET_key load_config_with conn_def proc_no_env_def a b
        del: json_dumps.simps)
qed

text \<open>
  Claim C1, amended. The key a handler holds is the one its constructor loaded, from the
  environment of the process and from the local configuration file as it is when the
  connection is accepted; handling the request does not change it. Two requests for
  \<open>/api/encryption-key\<close> of one run are answered with the same body when the
  environment variable is set to a non-empty string, or when the local configuration
  file is in the same state at both.
\<close>

theorem key_loaded_by_each_handler:
  "encryption_key (CORSRequestHandler_init p c) = load_encryption_key (environ p) (local_config c) \<and>
   (request_command c1 = ''GET'' \<and> request_path c1 = ''/api/encryption-key'' \<and>
    request_command c2 = ''GET'' \<and> request_path c2 = ''/api/encryption-key'' \<and>
    ((\<exists>v. environ p ''VITE_ENCRYPTION_KEY'' = Some v \<and> v \<noteq> []) \<or>
     local_config c1 = local_config c2) \<longrightarrow>
      sent_body (response p c1) = sent_body (response p c2))"
proof -
  have same: "load_encryption_key (environ p) (local_config c1)
      = load_encryption_key (environ p) (local_config c2)"
    if "(\<exists>v. environ p ''VITE_ENCRYPTION_KEY'' = Some v \<and> v \<noteq> []) \<or>
        local_config c1 = local_config c2"
    using that by (auto simp add: load_env_set)
  show ?thesis
    by (auto simp add: CORSRequestHandler_init_def encryption_key_handle_one_request
        new_handler_def sent_body_GET_key same simp del: json_dumps.simps)
qed

theorem key_loaded_by_each_handler_witness:
  \<open>sent_body (response (proc_env (py ''abc123''))
       (conn ''GET'' ''/api/encryption-key'' (config_with (PyStr (py ''a''))) not_found))
   = sent_body (response (proc_env (py ''abc123''))
       (conn ''GET'' ''/api/encryption-key'' Malformed not_found)) \<and>
   encryption_key (CORSRequestHandler_init proc_no_env
       (req ''GET /api/encryption-key HTTP/1.1'' (config_with (PyStr (py ''b''))) not_found))
   = PyStr (py ''b'')\<close>
proof -
  let ?p = "proc_env (py ''abc123'')"
  let ?c1 = "conn ''GET'' ''/api/encryption-key'' (config_with (PyStr (py ''a''))) not_found"
  let ?c2 = "conn ''GET'' ''/api/encryption-key'' Malformed not_found"
  let ?c = "req ''GET /api/encryption-key HTTP/1.1'' (config_with (PyStr (py ''b''))) not_found"
  have v: "\<exists>v. environ ?p ''VITE_ENCRYPTION_KEY'' = Some v \<and> v \<noteq> []"
    by (simp add: proc_env_def py_def)
  have k: "load_encryption_key (environ proc_no_env) (local_config ?c) = PyStr (py ''b'')"
    by (simp add: load_config_with proc_no_env_def req_def)
  from key_loaded_by_each_handler [of ?p ?c ?c1 ?c2]
    key_loaded_by_each_handler [of proc_no_env ?c ?c1 ?c2] v k
  show ?thesis
    by (simp add: conn_def)
qed

text \<open>
  Claim C2 says that every request \<open>GET /api/encryption-key\<close> with a key present is
  answered with status 200 and a \<open>Content-Type\<close> header. A request line of two words
  is a request of HTTP/0.9: the library accepts it, calls \<open>do_GET\<close>, and sends neither
  the status line nor any header, so the client receives the body alone.
\<close>

theorem http09_key_without_status:
  \<open>wfile (CORSRequestHandler_init (proc_env (py ''abc123''))
      (req ''GET /api/encryption-key'' Missing not_found))
   = [Body ''{"key": "abc123"}'']\<close>
  by code_simp

text \<open>
  Claim C2, amended. When \<open>parse_request\<close> accepts a request with a version other than
  \<open>HTTP/0.9\<close> (a first line of three words whose last is a well-formed version below
  2.0, and a header block that is read), the command is \<open>GET\<close>, the path it stores is
  \<open>/api/encryption-key\<close> and the handler holds a key that is a non-empty string \<open>v\<close>
  (the key is present: it passes the test \<open>if self.encryption_key\<close>), the response is
  status 200, a \<open>Content-Type\<close> header \<open>application/json\<close> and the body \<open>{"key": s}\<close>,
  where \<open>s\<close> is the JSON string literal for \<open>v\<close>. When \<open>v\<close> holds printable ASCII
  characters other than the double quote and the backslash, the literal is \<open>v\<close> between
  double quotes, character by character.
\<close>

theorem key_present_200:
  assumes "length (raw_requestline rq) \<le> 65536"
    and "parse_request rq (new_handler p (local_config rq) (date rq)) = (True, h)"
    and "request_version h \<noteq> ''HTTP/0.9''"
    and "command h = Some ''GET''"
    and "path h = ''/api/encryption-key''"
    and "load_encryption_key (environ p) (local_config rq) = PyStr v"
    and "v \<noteq> []"
  shows \<open>wfile (CORSRequestHandler_init p rq) =
       [StatusLine 200 ''OK'',
        HeaderLine ''Server'' (server_version p),
        HeaderLine ''Date'' (date rq),
        HeaderLine ''Content-Type'' ''application/json'']
       @ policy_lines
       @ [BlankLine, Body (''{"key": '' @ encode_basestring_ascii v @ ''}'')]
     \<and> ((\<forall>n \<in> set v. 0x20 \<le> n \<and> n \<le> 0x7E \<and> n \<noteq> 0x22 \<and> n \<noteq> 0x5C) \<longrightarrow>
          ''{"key": '' @ encode_basestring_ascii v @ ''}'' = ''{"key": "'' @ map char_of v @ ''"}'')\<close>
proof -
  let ?c = "\<lparr>local_config = local_config rq, date = date rq, inherited = inherited rq,
             request_command = ''GET'', request_path = ''/api/encryption-key''\<rparr>"
  have "wfile (CORSRequestHandler_init p rq) = response p ?c"
    using accepted_request_response [OF assms(1,2,3,4)] assms(5) by simp
  moreover have "truthy (load_encryption_key (environ p) (local_config ?c))"
    using assms(6,7) by simp
  ultimately have "wfile (CORSRequestHandler_init p rq) =
       [StatusLine 200 ''OK'', HeaderLine ''Server'' (server_version p),
        HeaderLine ''Date'' (date rq), HeaderLine ''Content-Type'' ''application/json'']
       @ policy_lines @ [BlankLine, Body (json_dumps (PyDict [(py ''key'', PyStr v)]))]"
    using assms(6) by (simp add: response_GET_key del: json_dumps.simps)
  moreover have \<open>json_dumps (PyDict [(py ''key'', PyStr v)]) =
      ''{"key": '' @ encode_basestring_ascii v @ ''}''\<close>
    by (simp add: encode_key_literal)
  ultimately have sent: \<open>wfile (CORSRequestHandler_init p rq) =
       [StatusLine 200 ''OK'', HeaderLine ''Server'' (server_version p),
        HeaderLine ''Date'' (date rq), HeaderLine ''Content-Type'' ''application/json'']
       @ policy_lines @ [BlankLine, Body (''{"key": '' @ encode_basestring_ascii v @ ''}'')]\<close>
    by (simp only:)
  have \<open>(\<forall>n \<in> set v. 0x20 \<le> n \<and> n \<le> 0x7E \<and> n \<noteq> 0x22 \<and> n \<noteq> 0x5C) \<longrightarrow>
      ''{"key": '' @ encode_basestring_ascii v @ ''}'' = ''{"key": "'' @ map char_of v @ ''"}''\<close>
    by (simp add: encode_basestring_ascii_def concat_escape_plain)
  with sent show ?thesis by (rule conjI)
qed

theorem key_present_200_witness:
  \<open>wfile (CORSRequestHandler_init (proc_env (py ''abc123''))
      (req ''GET /api/encryption-key HTTP/1.1'' Missing not_found)) =
     [StatusLine 200 ''OK'',
      HeaderLine ''Server'' ''SimpleHTTP/0.6 Python/3.11.10'',
      HeaderLine ''Date'' ''Tue, 03 Nov 2026 20:00:00 GMT'',
      HeaderLine ''Content-Type'' ''application/json'',
      HeaderLine ''Access-Control-Allow-Origin'' ''*'',
      HeaderLine ''Access-Control-Allow-Methods'' ''GET, POST, OPTIONS'',
      HeaderLine ''Access-Control-Allow-Headers'' ''Origin, Content-Type, Accept, Range'',
      HeaderLine ''Cross-Origin-Opener-Policy'' ''same-origin'',
      HeaderLine ''Cross-Origin-Embedder-Policy'' ''require-corp'',
      BlankLine,
      Body ''{"key": "abc123"}'']\<close>
proof -
  let ?p = "proc_env (py ''abc123'')"
  let ?rq = "req ''GET /api/encryption-key HTTP/1.1'' Missing not_found"
  let ?n = "new_handler ?p (local_config ?rq) (date ?rq)"
  let ?h = "?n\<lparr>command := Some ''GET'', path := ''/api/encryption-key'',
               request_version := ''HTTP/1.1''\<rparr>"
  have short: "length (raw_requestline ?rq) \<le> 65536"
    by (simp add: req_def)
  have "headers ?rq = HeadersRead"
    by (simp add: req_def)
  from parse_request_three [OF split_get_key_11 parse_version_11 _ this, of ?n]
  have parsed: "parse_request ?rq ?n = (True, ?h)"
    by simp
  have k: "load_encryption_key (environ ?p) (local_config ?rq) = PyStr (py ''abc123'')"
    by (simp add: load_env_set proc_env_def py_def)
  have plain: "\<forall>n \<in> set (py ''abc123''). 0x20 \<le> n \<and> n \<le> 0x7E \<and> n \<noteq> 0x22 \<and> n \<noteq> 0x5C"
    by (simp add: py_def)
  have chars: "map char_of (py ''abc123'') = ''abc123''"
    by (rule map_char_of_py)
  have "py ''abc123'' \<noteq> []" by (simp add: py_def)
  from key_present_200 [OF short parsed _ _ _ k this] plain chars show ?thesis
    by (simp add: req_def proc_env_def)
qed

text \<open>
  Claim C3 says that every request \<open>GET /api/encryption-key\<close> with no key is answered
  with status 404. For a request of HTTP/0.9 (a request line of two words) the library
  sends no status line and no header: the client receives the text alone.
\<close>

theorem http09_no_key_without_status:
  "wfile (CORSRequestHandler_init proc_no_env (req ''GET /api/encryption-key'' Missing index_html))
   = [Body ''Encryption key not configured'']"
  by code_simp

text \<open>
  Claim C3, amended. When \<open>parse_request\<close> accepts a request with a version other than
  \<open>HTTP/0.9\<close>, the command is \<open>GET\<close>, the path it stores is \<open>/api/encryption-key\<close> and
  the handler holds no key (the value fails the test \<open>if self.encryption_key\<close>, as
  \<open>None\<close> does), the response is status 404 and the body
  \<open>Encryption key not configured\<close>; no \<open>Content-Type\<close> header is sent with it. With no
  environment variable and a configuration file that is missing, unreadable or
  malformed the handler holds \<open>None\<close> (lemma \<open>load_no_env_no_config\<close>).
\<close>

theorem key_absent_404:
  assumes "length (raw_requestline rq) \<le> 65536"
    and "parse_request rq (new_handler p (local_config rq) (date rq)) = (True, h)"
    and "request_version h \<noteq> ''HTTP/0.9''"
    and "command h = Some ''GET''"
    and "path h = ''/api/encryption-key''"
    and "\<not> truthy (load_encryption_key (environ p) (local_config rq))"
  shows "wfile (CORSRequestHandler_init p rq) =
     [StatusLine 404 ''Not Found'',
      HeaderLine ''Server'' (server_version p),
      HeaderLine ''Date'' (date rq)]
     @ policy_lines
     @ [BlankLine, Body ''Encryption key not configured'']"
  using accepted_request_response [OF assms(1,2,3,4)] assms(5,6)
  by (simp add: response_GET_no_key)

theorem key_absent_404_witness:
  "environ proc_no_env ''VITE_ENCRYPTION_KEY'' = None \<and>
   local_config (req ''GET /api/encryption-key HTTP/1.1'' Missing index_html) = Missing \<and>
   wfile (CORSRequestHandler_init proc_no_env
      (req ''GET /api/encryption-key HTTP/1.1'' Missing index_html)) =
     [StatusLine 404 ''Not Found'',
      HeaderLine ''Server'' ''SimpleHTTP/0.6 Python/3.11.10'',
      HeaderLine ''Date'' ''Tue, 03 Nov 2026 20:00:00 GMT'',
      HeaderLine ''Access-Control-Allow-Origin'' ''*'',
      HeaderLine ''Access-Control-Allow-Methods'' ''GET, POST, OPTIONS'',
      HeaderLine ''Access-Control-Allow-Headers'' ''Origin, Content-Type, Accept, Range'',
      HeaderLine ''Cross-Origin-Opener-Policy'' ''same-origin'',
      HeaderLine ''Cross-Origin-Embedder-Policy'' ''require-corp'',
      BlankLine,
      Body ''Encryption key not configured'']"
proof -
  let ?rq = "req ''GET /api/encryption-key HTTP/1.1'' Missing index_html"
  let ?n = "new_handler proc_no_env (local_config ?rq) (date ?rq)"
  let ?h = "?n\<lparr>command := Some ''GET'', path := ''/api/encryption-key'',
               request_version := ''HTTP/1.1''\<rparr>"
  have short: "length (raw_requestline ?rq) \<le> 65536"
    by (simp add: req_def)
  have "headers ?rq = HeadersRead"
    by (simp add: req_def)
  from parse_request_three [OF split_get_key_11 parse_version_11 _ this, of ?n]
  have parsed: "parse_request ?rq ?n = (True, ?h)"
    by simp
  have k: "\<not> truthy (load_encryption_key (environ proc_no_env) (local_config ?rq))"
    by (simp add: load_no_env_no_config proc_no_env_def req_def)
  from key_absent_404 [OF short parsed _ _ _ k] show ?thesis
    by (simp add: req_def proc_no_env_def)
qed









text \<open>
  Claim C7 says that the filesystem is never consulted to answer a \<open>GET\<close> of
  \<open>/api/encryption-key\<close>. With the environment variable unset, the constructor of the
  handler reads \<open>local_config.json\<close> for the request, and the answer depends on it: the
  same request, with the same served files, is answered with the key when the file
  holds one and with the text of the absent key when the file is missing.
\<close>

theorem key_answer_read_from_config_file:
  \<open>sent_body (wfile (CORSRequestHandler_init proc_no_env
      (req ''GET /api/encryption-key HTTP/1.1'' (config_with (PyStr (py ''a''))) index_html)))
     = ''{"key": "a"}'' \<and>
   sent_body (wfile (CORSRequestHandler_init proc_no_env
      (req ''GET /api/encryption-key HTTP/1.1'' Missing index_html)))
     = ''Encryption key not configured''\<close>
  by code_simp

text \<open>
  Claim C7, amended. For a \<open>GET\<close> that \<open>parse_request\<close> accepts with a version other
  than \<open>HTTP/0.9\<close>, \<open>do_GET\<close> compares the path first (the path as the library stores
  it, a leading run of slashes reduced to one). If it is \<open>/api/encryption-key\<close>, the
  response is that of the key branch alone: status 200 with the key the constructor
  loaded (from the environment variable or, when that is unset or empty, from
  \<open>local_config.json\<close>) if that key is true, and the 404 of the absent key otherwise.
  The path is not looked up among the served files: the response does not mention what
  the static file code would answer. For every other path the response is the answer of
  the static file code.
\<close>

theorem key_path_before_files:
  assumes "length (raw_requestline rq) \<le> 65536"
    and "parse_request rq (new_handler p (local_config rq) (date rq)) = (True, h)"
    and "request_version h \<noteq> ''HTTP/0.9''"
    and "command h = Some ''GET''"
  shows "(path h = ''/api/encryption-key'' \<longrightarrow>
       wfile (CORSRequestHandler_init p rq) =
         (if truthy (load_encryption_key (environ p) (local_config rq)) then
            [StatusLine 200 ''OK'',
             HeaderLine ''Server'' (server_version p),
             HeaderLine ''Date'' (date rq),
             HeaderLine ''Content-Type'' ''application/json'']
            @ policy_lines
            @ [BlankLine,
               Body (json_dumps (PyDict
                 [(py ''key'', load_encryption_key (environ p) (local_config rq))]))]
          else
            [StatusLine 404 ''Not Found'',
             HeaderLine ''Server'' (server_version p),
             HeaderLine ''Date'' (date rq)]
            @ policy_lines
            @ [BlankLine, Body ''Encryption key not configured''])) \<and>
     (path h \<noteq> ''/api/encryption-key'' \<longrightarrow>
       wfile (CORSRequestHandler_init p rq) =
         [StatusLine (reply_code (inherited rq)) (reply_message (inherited rq)),
          HeaderLine ''Server'' (server_version p),
          HeaderLine ''Date'' (date rq)]
         @ map (\<lambda>kv. HeaderLine (fst kv) (snd kv)) (reply_headers (inherited rq))
         @ policy_lines @ [BlankLine]
         @ (case reply_body (inherited rq) of None \<Rightarrow> [] | Some b \<Rightarrow> [Body b]))"
  using accepted_request_response [OF assms]
  by (simp add: response_GET_key response_GET_no_key response_GET_other del: json_dumps.simps)

theorem key_path_before_files_witness:
  "wfile (CORSRequestHandler_init proc_no_env
      (req ''GET /api/encryption-key HTTP/1.1'' Missing index_html)) =
     [StatusLine 404 ''Not Found'',
      HeaderLine ''Server'' ''SimpleHTTP/0.6 Python/3.11.10'',
      HeaderLine ''Date'' ''Tue, 03 Nov 2026 20:00:00 GMT'',
      HeaderLine ''Access-Control-Allow-Origin'' ''*'',
      HeaderLine ''Access-Control-Allow-Methods'' ''GET, POST, OPTIONS'',
      HeaderLine ''Access-Control-Allow-Headers'' ''Origin, Content-Type, Accept, Range'',
      HeaderLine ''Cross-Origin-Opener-Policy'' ''same-origin'',
      HeaderLine ''Cross-Origin-Embedder-Policy'' ''require-corp'',
      BlankLine,
      Body ''Encryption key not configured''] \<and>
   wfile (CORSRequestHandler_init proc_no_env
      (req ''GET //api/encryption-key HTTP/1.0'' Missing index_html)) =
     [StatusLine 404 ''Not Found'',
      HeaderLine ''Server'' ''SimpleHTTP/0.6 Python/3.11.10'',
      HeaderLine ''Date'' ''Tue, 03 Nov 2026 20:00:00 GMT'',
      HeaderLine ''Access-Control-Allow-Origin'' ''*'',
      HeaderLine ''Access-Control-Allow-Methods'' ''GET, POST, OPTIONS'',
      HeaderLine ''Access-Control-Allow-Headers'' ''Origin, Content-Type, Accept, Range'',
      HeaderLine ''Cross-Origin-Opener-Policy'' ''same-origin'',
      HeaderLine ''Cross-Origin-Embedder-Policy'' ''require-corp'',
      BlankLine,
      Body ''Encryption key not configured''] \<and>
   wfile (CORSRequestHandler_init proc_no_env
      (req ''GET /index.html HTTP/1.1'' Missing index_html)) =
     [StatusLine 200 ''OK'',
      HeaderLine ''Server'' ''SimpleHTTP/0.6 Python/3.11.10'',
      HeaderLine ''Date'' ''Tue, 03 Nov 2026 20:00:00 GMT'',
      HeaderLine ''Content-type'' ''text/html'',
      HeaderLine ''Content-Length'' ''5'',
      HeaderLine ''Access-Control-Allow-Origin'' ''*'',
      HeaderLine ''Access-Control-Allow-Methods'' ''GET, POST, OPTIONS'',
      HeaderLine ''Access-Control-Allow-Headers'' ''Origin, Content-Type, Accept, Range'',
      HeaderLine ''Cross-Origin-Opener-Policy'' ''same-origin'',
      HeaderLine ''Cross-Origin-Embedder-Policy'' ''require-corp'',
      BlankLine,
      Body ''hello'']"
proof -
  let ?k = "req ''GET /api/encryption-key HTTP/1.1'' Missing index_html"
  let ?s = "req ''GET //api/encryption-key HTTP/1.0'' Missing index_html"
  let ?i = "req ''GET /index.html HTTP/1.1'' Missing index_html"
  let ?nk = "new_handler proc_no_env (local_config ?k) (date ?k)"
  let ?ns = "new_handler proc_no_env (local_config ?s) (date ?s)"
  let ?ni = "new_handler proc_no_env (local_config ?i) (date ?i)"
  have short: "length (raw_requestline ?k) \<le> 65536" "length (raw_requestline ?s) \<le> 65536"
      "length (raw_requestline ?i) \<le> 65536"
    by (simp_all add: req_def)
  have hdr: "headers ?k = HeadersRead" "headers ?s = HeadersRead" "headers ?i = HeadersRead"
    by (simp_all add: req_def)
  from parse_request_three [OF split_get_key_11 parse_version_11 _ hdr(1), of ?nk]
  have pk: "parse_request ?k ?nk = (True, ?nk\<lparr>command := Some ''GET'',
      path := ''/api/encryption-key'', request_version := ''HTTP/1.1''\<rparr>)"
    by simp
  from parse_request_three [OF split_get_slashes_10 parse_version_10 _ hdr(2), of ?ns]
  have ps: "parse_request ?s ?ns = (True, ?ns\<lparr>command := Some ''GET'',
      path := ''/api/encryption-key'', request_version := ''HTTP/1.0''\<rparr>)"
    by simp
  from parse_request_three [OF split_get_index_11 parse_version_11 _ hdr(3), of ?ni]
  have pi: "parse_request ?i ?ni = (True, ?ni\<lparr>command := Some ''GET'',
      path := ''/index.html'', request_version := ''HTTP/1.1''\<rparr>)"
    by simp
  have k: "\<not> truthy (load_encryption_key (environ proc_no_env) Missing)"
    by (simp add: load_no_env_no_config proc_no_env_def)
  from key_path_before_files [OF short(1) pk] key_path_before_files [OF short(2) ps]
    key_path_before_files [OF short(3) pi] k
  show ?thesis
    by (simp add: req_def proc_no_env_def index_html_def)
qed

text \<open>
  Claim C8 says that every \<open>OPTIONS\<close> request is answered with status 200 and the
  policy headers. For the version word \<open>HTTP/0.9\<close> the library calls \<open>do_OPTIONS\<close> and
  sends nothing at all; for a version from 2.0 on it refuses the request with the page
  of its error 505 and never calls \<open>do_OPTIONS\<close>.
\<close>

theorem options_http09_sends_nothing:
  \<open>wfile (CORSRequestHandler_init proc_no_env (req ''OPTIONS /anything HTTP/0.9'' Missing not_found))
     = [] \<and>
   wfile (CORSRequestHandler_init proc_no_env (req ''OPTIONS /anything HTTP/2.0'' Missing not_found))
     = [Body ''<p>Error code: 505</p><p>Message: Invalid HTTP version (2.0).</p>'']\<close>
  by code_simp

text \<open>
  Claim C8, amended. Every \<open>OPTIONS\<close> request that \<open>parse_request\<close> accepts with a
  version other than \<open>HTTP/0.9\<close>, whatever its path, the environment and the state of
  the local configuration file, is answered with status 200, the two library headers,
  the five policy headers and the blank line, and nothing after it: the body is empty.
  \<open>do_OPTIONS\<close> looks at neither the method nor the path.
\<close>

theorem options_any_path:
  assumes "length (raw_requestline rq) \<le> 65536"
    and "parse_request rq (new_handler p (local_config rq) (date rq)) = (True, h)"
    and "request_version h \<noteq> ''HTTP/0.9''"
    and "command h = Some ''OPTIONS''"
  shows "wfile (CORSRequestHandler_init p rq) =
     [StatusLine 200 ''ok'',
      HeaderLine ''Server'' (server_version p),
      HeaderLine ''Date'' (date rq),
      HeaderLine ''Access-Control-Allow-Origin'' ''*'',
      HeaderLine ''Access-Control-Allow-Methods'' ''GET, POST, OPTIONS'',
      HeaderLine ''Access-Control-Allow-Headers'' ''Origin, Content-Type, Accept, Range'',
      HeaderLine ''Cross-Origin-Opener-Policy'' ''same-origin'',
      HeaderLine ''Cross-Origin-Embedder-Policy'' ''require-corp'',
      BlankLine]"
  using accepted_request_response [OF assms] by (simp add: response_OPTIONS)

theorem options_any_path_witness:
  "wfile (CORSRequestHandler_init proc_no_env (req ''OPTIONS /anything HTTP/1.0'' Malformed not_found)) =
     [StatusLine 200 ''ok'',
      HeaderLine ''Server'' ''SimpleHTTP/0.6 Python/3.11.10'',
      HeaderLine ''Date'' ''Tue, 03 Nov 2026 20:00:00 GMT'',
      HeaderLine ''Access-Control-Allow-Origin'' ''*'',
      HeaderLine ''Access-Control-Allow-Methods'' ''GET, POST, OPTIONS'',
      HeaderLine ''Access-Control-Allow-Headers'' ''Origin, Content-Type, Accept, Range'',
      HeaderLine ''Cross-Origin-Opener-Policy'' ''same-origin'',
      HeaderLine ''Cross-Origin-Embedder-Policy'' ''require-corp'',
      BlankLine]"
proof -
  let ?rq = "req ''OPTIONS /anything HTTP/1.0'' Malformed not_found"
  let ?n = "new_handler proc_no_env (local_config ?rq) (date ?rq)"
  let ?h = "?n\<lparr>command := Some ''OPTIONS'', path := ''/anything'',
               request_version := ''HTTP/1.0''\<rparr>"
  have short: "length (raw_requestline ?rq) \<le> 65536"
    by (simp add: req_def)
  have "headers ?rq = HeadersRead"
    by (simp add: req_def)
  from parse_request_three [OF split_options_10 parse_version_10 _ this, of ?n]
  have parsed: "parse_request ?rq ?n = (True, ?h)"
    by simp
  from options_any_path [OF short parsed] show ?thesis
    by (simp add: req_def proc_no_env_def)
qed



section \<open>The claim about launch.py\<close>

text \<open>
  Claim C10 says that \<open>find_free_port\<close> returns a port of the range or raises
  \<open>RuntimeError\<close>. For a port above 65535 \<open>sock.bind\<close> raises \<open>OverflowError\<close>, which
  \<open>except OSError\<close> does not catch: the function leaves with that exception.
\<close>

theorem port_outside_range_overflows:
  "find_free_port (free_from 0) 65536 1 = Inl OverflowError"
  by code_simp

text \<open>
  Claim C10, amended. When the range from \<open>start_port\<close> up to, not including,
  \<open>start_port + max_attempts\<close> lies within the ports 0 to 65535, \<open>find_free_port\<close>
  returns a port exactly when it lies in the range, the bind on it succeeds and the bind
  on every smaller port of the range fails. It raises exactly when the bind fails on
  every port of the range, and what it raises is \<open>RuntimeError\<close>. \<open>main\<close> searches the
  ports 8000 to 8099, and leaves with exit code 1 when the bind fails on all of them.
\<close>

theorem find_free_port_smallest:
  assumes "0 \<le> start_port" and "start_port + max_attempts \<le> 65536"
  shows "(find_free_port bind start_port max_attempts = Inr port \<longleftrightarrow>
      start_port \<le> port \<and> port < start_port + max_attempts \<and> bind port \<and>
      (\<forall>q. start_port \<le> q \<and> q < port \<longrightarrow> \<not> bind q)) \<and>
   (find_free_port bind start_port max_attempts = Inl e \<longleftrightarrow>
      e = RuntimeError \<and> (\<forall>q. start_port \<le> q \<and> q < start_port + max_attempts \<longrightarrow> \<not> bind q)) \<and>
   ((\<forall>q. 8000 \<le> q \<and> q < 8100 \<longrightarrow> \<not> bind q) \<longrightarrow> main exists bind = SysExit 1)"
proof -
  have inr: "find_free_port bind s m = Inr port \<longleftrightarrow>
      s \<le> port \<and> port < s + m \<and> bind port \<and> (\<forall>q. s \<le> q \<and> q < port \<longrightarrow> \<not> bind q)"
    if "0 \<le> s" and "s + m \<le> 65536" for s m
    using that by (auto simp add: find_free_port_def range_list_def find_free_port_loop_Inr)
  have inl: "find_free_port bind s m = Inl e \<longleftrightarrow>
      e = RuntimeError \<and> (\<forall>q. s \<le> q \<and> q < s + m \<longrightarrow> \<not> bind q)"
    if "0 \<le> s" and "s + m \<le> 65536" for s m e
    using that by (auto simp add: find_free_port_def range_list_def find_free_port_loop_Inl)
  have "find_free_port bind 8000 100 = Inl RuntimeError"
    if "\<forall>q. 8000 \<le> q \<and> q < 8100 \<longrightarrow> \<not> bind q"
    using that inl [of 8000 100 RuntimeError] by simp
  then have "(\<forall>q. 8000 \<le> q \<and> q < 8100 \<longrightarrow> \<not> bind q) \<longrightarrow> main exists bind = SysExit 1"
    by (simp add: main_def)
  with inr [OF assms] inl [OF assms] show ?thesis by blast
qed

theorem find_free_port_smallest_witness:
  "find_free_port (free_from 8002) 8000 100 = Inr 8002 \<and>
   find_free_port (free_from 8100) 8000 100 = Inl RuntimeError \<and>
   main all_files (free_from 8100) = SysExit 1"
proof -
  have free: "free_from 8002 8002 \<and> (\<forall>q. 8000 \<le> q \<and> q < 8002 \<longrightarrow> \<not> free_from 8002 q)"
    by (simp add: free_from_def)
  have busy: "\<forall>q. 8000 \<le> q \<and> q < 8100 \<longrightarrow> \<not> free_from 8100 q"
    by (simp add: free_from_def)
  have range: "(0 :: int) \<le> 8000" "(8000 :: int) + 100 \<le> 65536"
    by simp_all
  from find_free_port_smallest [OF range, of "free_from 8002" 8002]
    find_free_port_smallest [OF range, of "free_from 8100" _ RuntimeError all_files] free busy
  show ?thesis by simp
qed

end
